theory Spec2Isabelle
  imports Main "HOL-Library.AList"
begin

section \<open>Python strings\<close>

text \<open>
  Python strings are modelled as \<^typ>\<open>string\<close>, one \<^typ>\<open>char\<close> per code point
  (code points below 256). \<open>isspace\<close> lists the code points below 256 for which
  \<^verbatim>\<open>str.isspace\<close> holds; \<open>strip\<close> is \<^verbatim>\<open>str.strip()\<close> without argument.
\<close>

definition isspace :: "char \<Rightarrow> bool" where
  "isspace c = (c \<in> set [CHR 0x09, CHR 0x0A, CHR 0x0B, CHR 0x0C, CHR 0x0D,
                           CHR 0x1C, CHR 0x1D, CHR 0x1E, CHR 0x1F, CHR 0x20,
                           CHR 0x85, CHR 0xA0])"

definition strip :: "string \<Rightarrow> string" where
  "strip s = rev (dropWhile isspace (rev (dropWhile isspace s)))"

text \<open>
  \<^verbatim>\<open>str.lower()\<close>: the upper-case letters below 256 are \<^verbatim>\<open>A\<close> to \<^verbatim>\<open>Z\<close> and the
  code points 192 to 222 without 215, each 32 below its lower-case letter.
\<close>

definition lower_char :: "char \<Rightarrow> char" where
  "lower_char c =
     (let n = (of_char c :: nat)
      in if (65 \<le> n \<and> n \<le> 90) \<or> (192 \<le> n \<and> n \<le> 222 \<and> n \<noteq> 215)
         then char_of (n + 32) else c)"

definition lower :: "string \<Rightarrow> string" where
  "lower s = map lower_char s"

text \<open>\<^verbatim>\<open>s.replace(" ", "_")\<close>.\<close>

definition replace_space :: "string \<Rightarrow> string" where
  "replace_space s = map (\<lambda>c. if c = CHR '' '' then CHR ''_'' else c) s"

text \<open>\<^verbatim>\<open>sep.join(xs)\<close>.\<close>

fun join :: "string \<Rightarrow> string list \<Rightarrow> string" where
  "join sep [] = []"
| "join sep [x] = x"
| "join sep (x # y # ys) = x @ sep @ join sep (y # ys)"

text \<open>The decimal representation of a natural number, as an f-string prints an \<^verbatim>\<open>int\<close>.\<close>

definition digit_char :: "nat \<Rightarrow> char" where
  "digit_char d = char_of (48 + d)"

fun str_nat :: "nat \<Rightarrow> string" where
  "str_nat n = (if n < 10 then [digit_char n] else str_nat (n div 10) @ [digit_char (n mod 10)])"

declare str_nat.simps [simp del]

text \<open>\<^verbatim>\<open>str(x)\<close> of a value that is a string or \<^verbatim>\<open>None\<close>.\<close>

definition py_str :: "string option \<Rightarrow> string" where
  "py_str v = (case v of None \<Rightarrow> ''None'' | Some s \<Rightarrow> s)"

datatype error = KeyError string | AttributeError string | IndexError

text \<open>
  A loop that appends the result of a call to a list: the first call that raises ends
  the loop with its exception.
\<close>

fun sequence_sum :: "('e + 'a) list \<Rightarrow> 'e + 'a list" where
  "sequence_sum [] = Inr []"
| "sequence_sum (Inl e # xs) = Inl e"
| "sequence_sum (Inr x # xs) =
     (case sequence_sum xs of Inl e \<Rightarrow> Inl e | Inr ys \<Rightarrow> Inr (x # ys))"

section \<open>The parsed document\<close>

text \<open>
  A BeautifulSoup tree: a \<open>Tag\<close> has a name, attributes and contents; a content item is
  a \<open>NavigableString\<close> or a \<open>Tag\<close>. The HTML tree builders store the \<^verbatim>\<open>class\<close>
  attribute as a list of strings and every other attribute read here (\<^verbatim>\<open>id\<close>,
  \<^verbatim>\<open>data-pid\<close>) as one string: \<open>classes\<close> is \<open>None\<close> when \<^verbatim>\<open>"class"\<close> is not in
  \<^verbatim>\<open>attrs\<close>, and \<open>attrs\<close> holds the other attributes. The \<^verbatim>\<open>BeautifulSoup\<close> object
  itself is a \<open>Tag\<close> without attributes. Comments and the other subclasses of
  \<^verbatim>\<open>NavigableString\<close> are not modelled.
\<close>

datatype tag = Tag (tag_name: string) (classes: "string list option")
                   (attrs: "(string \<times> string) list") (contents: "node list")
  and node = NavigableString string | Element tag

text \<open>
  An element as the code holds it: the tag together with what \<^verbatim>\<open>.parent\<close> and
  \<^verbatim>\<open>.next_siblings\<close> give.
\<close>

record located =
  parent :: tag
  self :: tag
  next_siblings :: "node list"

text \<open>The tags below a tag, in document order (\<^verbatim>\<open>.descendants\<close> without the strings).\<close>

fun descendants :: "tag \<Rightarrow> located list"
  and descendants_list :: "tag \<Rightarrow> node list \<Rightarrow> located list" where
  "descendants (Tag n c a cs) = descendants_list (Tag n c a cs) cs"
| "descendants_list p [] = []"
| "descendants_list p (NavigableString s # ns) = descendants_list p ns"
| "descendants_list p (Element t # ns) =
     \<lparr>parent = p, self = t, next_siblings = ns\<rparr> # descendants t @ descendants_list p ns"

text \<open>
  \<^verbatim>\<open>find_all\<close> and \<^verbatim>\<open>find\<close> with a filter on the tag; \<^verbatim>\<open>find\<close> gives the first
  match or \<^verbatim>\<open>None\<close>.
\<close>

definition find_all :: "tag \<Rightarrow> (tag \<Rightarrow> bool) \<Rightarrow> located list" where
  "find_all t P = filter (\<lambda>x. P (self x)) (descendants t)"

definition find :: "tag \<Rightarrow> (tag \<Rightarrow> bool) \<Rightarrow> located option" where
  "find t P = (case find_all t P of [] \<Rightarrow> None | x # xs \<Rightarrow> Some x)"

text \<open>
  The filter \<^verbatim>\<open>class_=c\<close> for a string \<open>c\<close>: a tag matches when one of its classes is
  \<open>c\<close>, or when its classes joined by single spaces are \<open>c\<close>. A tag without a
  \<^verbatim>\<open>class\<close> attribute does not match.
\<close>

definition class_matches :: "string \<Rightarrow> tag \<Rightarrow> bool" where
  "class_matches c t =
     (case classes t of None \<Rightarrow> False | Some cs \<Rightarrow> c \<in> set cs \<or> join '' '' cs = c)"

text \<open>The filter \<^verbatim>\<open>id=i\<close>.\<close>

definition id_matches :: "string \<Rightarrow> tag \<Rightarrow> bool" where
  "id_matches i t = (map_of (attrs t) ''id'' = Some i)"

text \<open>\<^verbatim>\<open>Tag.get_text()\<close>: the strings below the tag, concatenated in document order.\<close>

fun tag_get_text :: "tag \<Rightarrow> string"
  and nodes_get_text :: "node list \<Rightarrow> string" where
  "tag_get_text (Tag n c a cs) = nodes_get_text cs"
| "nodes_get_text [] = []"
| "nodes_get_text (NavigableString s # ns) = s @ nodes_get_text ns"
| "nodes_get_text (Element t # ns) = tag_get_text t @ nodes_get_text ns"

text \<open>
  \<^verbatim>\<open>Tag.string\<close>: the string of a tag whose only content is a string, or whose only
  content is a tag that has a \<^verbatim>\<open>.string\<close>; \<^verbatim>\<open>None\<close> otherwise.
\<close>

fun tag_string :: "tag \<Rightarrow> string option" where
  "tag_string (Tag n c a [NavigableString s]) = Some s"
| "tag_string (Tag n c a [Element t]) = tag_string t"
| "tag_string (Tag n c a cs) = None"

section \<open>Extracting the hierarchy\<close>

text \<open>
  The class searched for at a level, \<^verbatim>\<open>f"ctag-heading c0{level}"\<close>: the prefix
  \<^verbatim>\<open>c0\<close> is a literal of the source, the level is printed in decimal after it.
\<close>

definition heading_class :: "nat \<Rightarrow> string" where
  "heading_class n = ''ctag-heading c0'' @ str_nat n"

text \<open>
  A value that is a string or \<^verbatim>\<open>None\<close>, and the dictionary built by
  \<^verbatim>\<open>extract_node_details\<close>, with keys \<^verbatim>\<open>id\<close>, \<^verbatim>\<open>title\<close>,
  \<^verbatim>\<open>description\<close>, \<^verbatim>\<open>digitised\<close>, \<^verbatim>\<open>first_page\<close> and \<^verbatim>\<open>children\<close>.
\<close>

datatype pyval = PyNone | PyStr string

datatype fnode = FNode (node_id: string) (title: string) (description: string)
                       (digitised: bool) (first_page: pyval) (children: "fnode list")

text \<open>
  \<^verbatim>\<open>
  def is_digitised(node):
      if "class" in node.parent.attrs and "image-and-title" in node.parent.attrs["class"]:
          return True
      return False
  \<close>
\<close>

definition is_digitised :: "located \<Rightarrow> bool" where
  "is_digitised node =
     (case classes (parent node) of None \<Rightarrow> False
      | Some cs \<Rightarrow> ''image-and-title'' \<in> set cs)"

text \<open>
  \<^verbatim>\<open>
  def get_first_page(node):
      if img := node.parent.find("img", class_="thumbnail"):
          return img["data-pid"]
  \<close>
  A tag is always true as a condition. Without a thumbnail the function returns
  \<^verbatim>\<open>None\<close>; a thumbnail without \<^verbatim>\<open>data-pid\<close> raises \<^verbatim>\<open>KeyError\<close>.
\<close>

definition get_first_page :: "located \<Rightarrow> error + pyval" where
  "get_first_page node =
     (case find (parent node) (\<lambda>t. tag_name t = ''img'' \<and> class_matches ''thumbnail'' t) of
        None \<Rightarrow> Inr PyNone
      | Some img \<Rightarrow>
          (case map_of (attrs (self img)) ''data-pid'' of
             None \<Rightarrow> Inl (KeyError ''data-pid'')
           | Some pid \<Rightarrow> Inr (PyStr pid)))"

text \<open>
  \<^verbatim>\<open>
  def get_text(node):
      text = []
      for child in node.parent.children:
          if isinstance(child, NavigableString):
              if string := str(child).strip():
                  text.append(string)
          elif isinstance(child, Tag) and child.name == "p":
              text.append(str(child.string).strip())
      return "\n".join(text)
  \<close>
  \<open>text_of_child\<close> is what one round of the loop appends.
\<close>

fun text_of_child :: "node \<Rightarrow> string list" where
  "text_of_child (NavigableString s) = (if strip s \<noteq> [] then [strip s] else [])"
| "text_of_child (Element t) =
     (if tag_name t = ''p'' then [strip (py_str (tag_string t))] else [])"

definition get_text :: "located \<Rightarrow> string" where
  "get_text node = join [CHR 0x0A] (concat (map text_of_child (contents (parent node))))"

text \<open>
  \<^verbatim>\<open>
  def extract_node_details(node, level):
      details = {
          "id": node.attrs["id"],
          "title": node.get_text().strip(),
          "description": get_text(node),
          "digitised": is_digitised(node),
          "first_page": "",
      }
      if details["digitised"]:
          try:
              details["first_page"] = get_first_page(node)
          except KeyError:
              pass
      details["children"] = get_children(node, level)
      return details

  def get_children(parent, level):
      children = []
      for child in parent.parent.find_all(class_=f"ctag-heading c0{level + 1}"):
          children.append(extract_node_details(child, level + 1))
      return children
  \<close>
  The two functions call each other. A call of \<^verbatim>\<open>get_children\<close> searches below the
  parent of its heading, so the tag searched never grows, and where it stays the same
  the levels still to be found below it become fewer: \<open>heading_levels\<close> is the set of
  those levels, finite because the decimal representation is injective.
\<close>

fun digits_val :: "string \<Rightarrow> nat" where
  "digits_val s = foldl (\<lambda>a c. 10 * a + (of_char c - 48)) 0 s"

lemma digits_val_str_nat: "digits_val (str_nat n) = n"
proof (induction n rule: str_nat.induct)
  case (1 n)
  show ?case
  proof (cases "n < 10")
    case True
    then show ?thesis by (subst str_nat.simps) (simp add: digit_char_def)
  next
    case False
    have m: "n mod 10 < 10" by simp
    from False 1 have "digits_val (str_nat (n div 10)) = n div 10" by simp
    with False m show ?thesis
      by (subst str_nat.simps) (simp add: digit_char_def)
  qed
qed

lemma inj_str_nat: "inj str_nat"
  by (rule inj_on_inverseI [where g = digits_val]) (rule digits_val_str_nat)

lemma inj_heading_class: "inj heading_class"
  using inj_str_nat by (auto simp: inj_def heading_class_def)

lemma descendants_parent:
  "x \<in> set (descendants t) \<Longrightarrow> parent x = t \<or> size (parent x) < size t"
  "x \<in> set (descendants_list p ns) \<Longrightarrow>
     parent x = p \<or> size (parent x) < Suc (size_list size ns)"
  by (induction t and p ns rule: descendants_descendants_list.induct) auto

definition heading_levels :: "tag \<Rightarrow> nat \<Rightarrow> nat set" where
  "heading_levels t level =
     {k. level < k \<and> (\<exists>x \<in> set (descendants t). class_matches (heading_class k) (self x))}"

lemma finite_heading_levels: "finite (heading_levels t level)"
proof -
  let ?S = "(\<Union>x \<in> set (descendants t).
               case classes (self x) of None \<Rightarrow> {}
               | Some cs \<Rightarrow> insert (join '' '' cs) (set cs))"
  have "finite ?S" by (auto split: option.splits)
  then have "finite (heading_class -` ?S)"
    by (rule finite_vimageI) (rule inj_heading_class)
  moreover have "heading_levels t level \<subseteq> heading_class -` ?S"
  proof
    fix k assume "k \<in> heading_levels t level"
    then obtain x cs where x: "x \<in> set (descendants t)" "classes (self x) = Some cs"
      and k: "heading_class k \<in> set cs \<or> join '' '' cs = heading_class k"
      by (auto simp: heading_levels_def class_matches_def split: option.splits)
    from k have "heading_class k \<in> insert (join '' '' cs) (set cs)" by auto
    with x show "k \<in> heading_class -` ?S" by force
  qed
  ultimately show ?thesis by (rule rev_finite_subset)
qed

lemma heading_levels_Suc:
  assumes "x \<in> set (find_all t (class_matches (heading_class (Suc level))))"
  shows "card (heading_levels t (Suc level)) < card (heading_levels t level)"
proof (rule psubset_card_mono [OF finite_heading_levels])
  from assms have "Suc level \<in> heading_levels t level"
    by (auto simp: heading_levels_def find_all_def)
  moreover have "Suc level \<notin> heading_levels t (Suc level)"
    by (simp add: heading_levels_def)
  moreover have "heading_levels t (Suc level) \<subseteq> heading_levels t level"
    by (auto simp: heading_levels_def)
  ultimately show "heading_levels t (Suc level) \<subset> heading_levels t level" by blast
qed

definition extract_rank :: "located \<times> nat + located \<times> nat \<Rightarrow> nat \<times> nat \<times> nat" where
  "extract_rank v =
     (case v of
        Inl (node, level) \<Rightarrow>
          (size (parent node), card (heading_levels (parent node) level), Suc 0)
      | Inr (par, level) \<Rightarrow>
          (size (parent par), card (heading_levels (parent par) level), 0))"

function extract_node_details :: "located \<Rightarrow> nat \<Rightarrow> error + fnode"
  and get_children :: "located \<Rightarrow> nat \<Rightarrow> error + fnode list" where
  "extract_node_details node level =
     (case map_of (attrs (self node)) ''id'' of
        None \<Rightarrow> Inl (KeyError ''id'')
      | Some i \<Rightarrow>
          (let t = strip (tag_get_text (self node));
               d = get_text node;
               g = is_digitised node;
               f = (if g then (case get_first_page node of
                                 Inl (KeyError k) \<Rightarrow> Inr (PyStr [])
                               | Inl e \<Rightarrow> Inl e
                               | Inr v \<Rightarrow> Inr v)
                    else Inr (PyStr []))
           in case f of
                Inl e \<Rightarrow> Inl e
              | Inr fp \<Rightarrow>
                  (case get_children node level of
                     Inl e \<Rightarrow> Inl e
                   | Inr cs \<Rightarrow> Inr (FNode i t d g fp cs))))"
| "get_children par level =
     sequence_sum (map (\<lambda>child. extract_node_details child (level + 1))
                       (find_all (parent par) (class_matches (heading_class (level + 1)))))"
  by pat_completeness auto
termination
proof (relation "inv_image (less_than <*lex*> less_than <*lex*> less_than) extract_rank")
  show "wf (inv_image (less_than <*lex*> less_than <*lex*> less_than) extract_rank)"
    by (intro wf_inv_image wf_lex_prod wf_less_than)
next
  fix node :: located and level :: nat
  show "(Inr (node, level), Inl (node, level))
          \<in> inv_image (less_than <*lex*> less_than <*lex*> less_than) extract_rank"
    by (simp add: extract_rank_def)
next
  fix par :: located and level :: nat and x :: located
  assume x: "x \<in> set (find_all (parent par) (class_matches (heading_class (level + 1))))"
  then have "x \<in> set (descendants (parent par))" by (simp add: find_all_def)
  then have "parent x = parent par \<or> size (parent x) < size (parent par)"
    by (rule descendants_parent)
  moreover from x have "card (heading_levels (parent par) (Suc level))
                         < card (heading_levels (parent par) level)"
    using heading_levels_Suc by simp
  ultimately show "(Inl (x, level + 1), Inr (par, level))
          \<in> inv_image (less_than <*lex*> less_than <*lex*> less_than) extract_rank"
    by (auto simp: extract_rank_def)
qed

declare extract_node_details.simps [simp del] get_children.simps [simp del]

section \<open>The summary of the finding aid\<close>

text \<open>
  \<^verbatim>\<open>
  def get_string_by_id(soup, tag, id):
      try:
          return str(soup.find(tag, id=id).string)
      except AttributeError:
          return ""

  def get_fa_details(soup):
      return {
          "title": get_string_by_id(soup, "h1", "contentrow"),
          "collection_number": get_string_by_id(soup, "h2", "collection-number"),
      }
  \<close>
  \<^verbatim>\<open>find\<close> gives \<^verbatim>\<open>None\<close> when no tag matches, and \<^verbatim>\<open>None.string\<close> is the
  \<^verbatim>\<open>AttributeError\<close> that the function catches.
\<close>

definition get_string_by_id :: "tag \<Rightarrow> string \<Rightarrow> string \<Rightarrow> string" where
  "get_string_by_id soup tag i =
     (case find soup (\<lambda>t. tag_name t = tag \<and> id_matches i t) of
        None \<Rightarrow> []
      | Some e \<Rightarrow> py_str (tag_string (self e)))"

definition get_fa_details :: "tag \<Rightarrow> (string \<times> string) list" where
  "get_fa_details soup =
     [(''title'', get_string_by_id soup ''h1'' ''contentrow''),
      (''collection_number'', get_string_by_id soup ''h2'' ''collection-number'')]"

text \<open>
  \<^verbatim>\<open>
  def check_tag(node, tag):
      if isinstance(node, Tag) and node.name == tag:
          return True
      return False

  def find_sibling_tag(node, tag):
      for sib in node.next_siblings:
          if check_tag(sib, tag):
              return sib
  \<close>
  When no sibling passes the check the loop ends and the function returns \<^verbatim>\<open>None\<close>.
\<close>

fun check_tag :: "node \<Rightarrow> string \<Rightarrow> bool" where
  "check_tag (Element t) tag = (tag_name t = tag)"
| "check_tag (NavigableString s) tag = False"

fun first_sibling_tag :: "node list \<Rightarrow> string \<Rightarrow> tag option" where
  "first_sibling_tag [] tag = None"
| "first_sibling_tag (NavigableString s # sibs) tag = first_sibling_tag sibs tag"
| "first_sibling_tag (Element t # sibs) tag =
     (if check_tag (Element t) tag then Some t else first_sibling_tag sibs tag)"

definition find_sibling_tag :: "located \<Rightarrow> string \<Rightarrow> tag option" where
  "find_sibling_tag node tag = first_sibling_tag (next_siblings node) tag"

text \<open>
  \<^verbatim>\<open>
  def get_fa_summary(soup):
      summary_data = {}
      if summary_head := soup.find(id="collection-summary"):
          summary = find_sibling_tag(summary_head, "dl")
          for label in summary.find_all("dt"):
              value = find_sibling_tag(label, "dd")
              summary_data[
                  str(label.string).lower().strip().replace(" ", "_")
              ] = value.get_text().strip()
      return summary_data
  \<close>
  The dictionary is an association list in insertion order; \<^const>\<open>AList.update\<close>
  replaces the value of a key that is present and appends a new key, as the assignment
  does. Calling a method of \<^verbatim>\<open>None\<close> raises \<^verbatim>\<open>AttributeError\<close>, which nothing
  here catches. \<open>summary_key\<close> is the key computed from a label, \<open>summary_loop\<close> the
  \<^verbatim>\<open>for\<close> loop.
\<close>

definition summary_key :: "located \<Rightarrow> string" where
  "summary_key label = replace_space (strip (lower (py_str (tag_string (self label)))))"

fun summary_loop ::
  "located list \<Rightarrow> (string \<times> string) list \<Rightarrow> error + (string \<times> string) list" where
  "summary_loop [] summary_data = Inr summary_data"
| "summary_loop (label # labels) summary_data =
     (case find_sibling_tag label ''dd'' of
        None \<Rightarrow> Inl (AttributeError ''get_text'')
      | Some v \<Rightarrow>
          summary_loop labels
            (AList.update (summary_key label) (strip (tag_get_text v)) summary_data))"

definition get_fa_summary :: "tag \<Rightarrow> error + (string \<times> string) list" where
  "get_fa_summary soup =
     (case find soup (id_matches ''collection-summary'') of
        None \<Rightarrow> Inr []
      | Some summary_head \<Rightarrow>
          (case find_sibling_tag summary_head ''dl'' of
             None \<Rightarrow> Inl (AttributeError ''find_all'')
           | Some summary \<Rightarrow> summary_loop (find_all summary (\<lambda>t. tag_name t = ''dt'')) []))"

section \<open>Converting a finding aid\<close>

text \<open>
  \<^verbatim>\<open>
  def convert_finding_aid(url):
      response = s.get(url)
      soup = BeautifulSoup(response.text)
      fa_data = get_fa_summary(soup)
      if "title" not in fa_data:
          fa_data = get_fa_details(soup)
      fa_items = []
      for node in soup.find_all(class_="ctag-heading c01"):
          fa_items.append(extract_node_details(node, 1))
      fa_data["items"] = fa_items
      return fa_data
  \<close>
  The model starts from the parsed document. \<open>fa_items\<close> is the loop over the level-1
  headings. The values of the result are strings, and the list of nodes under
  \<^verbatim>\<open>items\<close>.
\<close>

definition fa_items :: "tag \<Rightarrow> error + fnode list" where
  "fa_items soup =
     sequence_sum (map (\<lambda>node. extract_node_details node 1)
                       (find_all soup (class_matches ''ctag-heading c01'')))"

datatype jval = JStr string | JItems "fnode list"

definition convert_finding_aid :: "tag \<Rightarrow> error + (string \<times> jval) list" where
  "convert_finding_aid soup =
     (case get_fa_summary soup of
        Inl e \<Rightarrow> Inl e
      | Inr summary_data \<Rightarrow>
          (let fa_data = (if ''title'' \<notin> fst ` set summary_data then get_fa_details soup
                          else summary_data)
           in case fa_items soup of
                Inl e \<Rightarrow> Inl e
              | Inr items \<Rightarrow>
                  Inr (AList.update ''items'' (JItems items)
                         (map (\<lambda>(k, v). (k, JStr v)) fa_data))))"

section \<open>Leaves and paths\<close>

text \<open>
  \<^verbatim>\<open>
  def find_leaves(node):
      if isinstance(node, list):
          for i in node:
              for x in find_leaves(i):
                  yield x
      elif isinstance(node, dict):
          if node["children"] == []:
              yield node
          else:
              for j in node["children"]:
                  for x in find_leaves(j):
                      yield x
  \<close>
  The generator is modelled by the list of what it yields: \<open>find_leaves\<close> is the branch
  for a list, \<open>find_leaves_node\<close> the branch for a dictionary.
\<close>

fun find_leaves_node :: "fnode \<Rightarrow> fnode list"
  and find_leaves :: "fnode list \<Rightarrow> fnode list" where
  "find_leaves_node (FNode i t d g f cs) =
     (if cs = [] then [FNode i t d g f cs] else find_leaves cs)"
| "find_leaves [] = []"
| "find_leaves (n # ns) = find_leaves_node n @ find_leaves ns"

text \<open>
  \<^verbatim>\<open>
  def get_paths(node, paths=[], titles=[]):
      paths = []
      titles.append(node["title"])
      if not node["children"]:
          context = titles.copy()
          # Remove the item's own title
          context.pop()
          # Reset title list
          titles = []
          paths.append(
              {"id": node["id"], "title": node["title"], "context": " / ".join(context)}
          )
      else:
          for i in node["children"]:
              paths.extend(get_paths(i, paths, titles))
              # Go back up a level
              titles.pop()
      return paths
  \<close>
  The list \<^verbatim>\<open>titles\<close> is one object that the function and its recursive calls change
  in place, so the lists live in a store: \<open>cells\<close> gives the contents of the list at an
  address, and the addresses below \<open>next_free\<close> are in use (among them the two lists that
  the \<^verbatim>\<open>def\<close> made for the default arguments). The parameter \<open>titles\<close> of the model
  is the address of the list passed. The assignments \<^verbatim>\<open>paths = []\<close> and
  \<^verbatim>\<open>titles = []\<close> bind a local name to a new list that no caller holds: the first makes
  \<^verbatim>\<open>paths\<close> a value local to the call, the second changes nothing that is read later.
  \<^verbatim>\<open>pop\<close> of an empty list raises \<^verbatim>\<open>IndexError\<close>.
\<close>

record path =
  path_id :: string
  path_title :: string
  path_context :: string

record heap =
  cells :: "nat \<Rightarrow> string list"
  next_free :: nat

definition new_list :: "heap \<Rightarrow> nat \<times> heap" where
  "new_list h =
     (next_free h, h\<lparr>cells := (cells h)(next_free h := []), next_free := Suc (next_free h)\<rparr>)"

definition list_append :: "nat \<Rightarrow> string \<Rightarrow> heap \<Rightarrow> heap" where
  "list_append a x h = h\<lparr>cells := (cells h)(a := cells h a @ [x])\<rparr>"

definition list_pop :: "nat \<Rightarrow> heap \<Rightarrow> error + heap" where
  "list_pop a h =
     (if cells h a = [] then Inl IndexError
      else Inr (h\<lparr>cells := (cells h)(a := butlast (cells h a))\<rparr>))"

fun get_paths :: "fnode \<Rightarrow> nat \<Rightarrow> heap \<Rightarrow> error + path list \<times> heap"
  and get_paths_children ::
    "fnode list \<Rightarrow> path list \<Rightarrow> nat \<Rightarrow> heap \<Rightarrow> error + path list \<times> heap" where
  "get_paths (FNode i t d g f cs) titles h =
     (let h1 = list_append titles t h in
      if cs = [] then
        (let ctx = cells h1 titles in
         if ctx = [] then Inl IndexError
         else Inr ([\<lparr>path_id = i, path_title = t,
                      path_context = join '' / '' (butlast ctx)\<rparr>], h1))
      else get_paths_children cs [] titles h1)"
| "get_paths_children [] paths titles h = Inr (paths, h)"
| "get_paths_children (c # cs) paths titles h =
     (case get_paths c titles h of
        Inl e \<Rightarrow> Inl e
      | Inr (ps, h1) \<Rightarrow>
          (case list_pop titles h1 of
             Inl e \<Rightarrow> Inl e
           | Inr h2 \<Rightarrow> get_paths_children cs (paths @ ps) titles h2))"

text \<open>
  \<^verbatim>\<open>
  paths = []
  for series in fa["items"]:
      paths.extend(get_paths(series, [], []))
  \<close>
  Each round passes two new lists.
\<close>

fun paths_loop :: "fnode list \<Rightarrow> path list \<Rightarrow> heap \<Rightarrow> error + path list \<times> heap" where
  "paths_loop [] paths h = Inr (paths, h)"
| "paths_loop (series # rest) paths h =
     (let (titles, h1) = new_list h in
      case get_paths series titles h1 of
        Inl e \<Rightarrow> Inl e
      | Inr (ps, h2) \<Rightarrow> paths_loop rest (paths @ ps) h2)"

section \<open>What the leaves and the paths of a tree are\<close>

text \<open>
  The nodes of a forest in pre-order, left to right; the same list with, for each node,
  the titles of its ancestors from the top-level series down to its parent; a leaf is a
  node without children; the path record of a leaf joins the titles of its ancestors.
\<close>

fun preorder :: "fnode \<Rightarrow> fnode list"
  and preorder_list :: "fnode list \<Rightarrow> fnode list" where
  "preorder (FNode i t d g f cs) = FNode i t d g f cs # preorder_list cs"
| "preorder_list [] = []"
| "preorder_list (n # ns) = preorder n @ preorder_list ns"

fun with_ancestors :: "string list \<Rightarrow> fnode \<Rightarrow> (string list \<times> fnode) list"
  and with_ancestors_list :: "string list \<Rightarrow> fnode list \<Rightarrow> (string list \<times> fnode) list" where
  "with_ancestors anc (FNode i t d g f cs) =
     (anc, FNode i t d g f cs) # with_ancestors_list (anc @ [t]) cs"
| "with_ancestors_list anc [] = []"
| "with_ancestors_list anc (n # ns) = with_ancestors anc n @ with_ancestors_list anc ns"

definition is_leaf :: "fnode \<Rightarrow> bool" where
  "is_leaf n = (children n = [])"

definition leaf_path :: "string list \<times> fnode \<Rightarrow> path" where
  "leaf_path x =
     \<lparr>path_id = node_id (snd x), path_title = title (snd x),
      path_context = join '' / '' (fst x)\<rparr>"

definition leaf_paths :: "(string list \<times> fnode) list \<Rightarrow> path list" where
  "leaf_paths xs = map leaf_path (filter (\<lambda>x. is_leaf (snd x)) xs)"

section \<open>What the extraction reads\<close>

text \<open>
  The value of \<^verbatim>\<open>first_page\<close> computed from the document alone: the empty string of
  the initial dictionary when the node is not digitised or \<^verbatim>\<open>KeyError\<close> was caught,
  \<^verbatim>\<open>None\<close> when there is no thumbnail, the \<^verbatim>\<open>data-pid\<close> of the first thumbnail
  otherwise.
\<close>

definition first_page_of :: "located \<Rightarrow> pyval" where
  "first_page_of node =
     (if is_digitised node then
        (case find (parent node) (\<lambda>t. tag_name t = ''img'' \<and> class_matches ''thumbnail'' t) of
           None \<Rightarrow> PyNone
         | Some img \<Rightarrow>
             (case map_of (attrs (self img)) ''data-pid'' of
                None \<Rightarrow> PyStr []
              | Some pid \<Rightarrow> PyStr pid))
      else PyStr [])"


text \<open>The node extracted from a heading with an id and no heading of the next level.\<close>

definition leaf_of_heading :: "located \<Rightarrow> fnode" where
  "leaf_of_heading x =
     FNode (the (map_of (attrs (self x)) ''id'')) (strip (tag_get_text (self x))) (get_text x)
           (is_digitised x) (first_page_of x) []"

text \<open>
  The labels of the collection summary: the \<^verbatim>\<open>dt\<close> tags below the first \<^verbatim>\<open>dl\<close>
  that follows the tag with id \<^verbatim>\<open>collection-summary\<close>.
\<close>

definition summary_labels :: "tag \<Rightarrow> located list" where
  "summary_labels soup =
     (case find soup (id_matches ''collection-summary'') of
        None \<Rightarrow> []
      | Some summary_head \<Rightarrow>
          (case find_sibling_tag summary_head ''dl'' of
             None \<Rightarrow> []
           | Some summary \<Rightarrow> find_all summary (\<lambda>t. tag_name t = ''dt'')))"

section \<open>Example documents\<close>

text \<open>
  Two series and two items, all four headings children of one \<^verbatim>\<open>div\<close>:
  \<^verbatim>\<open>
  <div><h3 class="ctag-heading c01" id="s1">Series 1</h3>
       <h3 class="ctag-heading c02" id="a">Item A</h3>
       <h3 class="ctag-heading c01" id="s2">Series 2</h3>
       <h3 class="ctag-heading c02" id="b">Item B</h3></div>
  \<close>
\<close>

definition flat_heading :: "string \<Rightarrow> string \<Rightarrow> string \<Rightarrow> tag" where
  "flat_heading c i t = Tag ''h3'' (Some [''ctag-heading'', c]) [(''id'', i)] [NavigableString t]"

definition flat_doc :: tag where
  "flat_doc =
     Tag ''[document]'' None []
       [Element (Tag ''div'' None []
          [Element (flat_heading ''c01'' ''s1'' ''Series 1''),
           Element (flat_heading ''c02'' ''a'' ''Item A''),
           Element (flat_heading ''c01'' ''s2'' ''Series 2''),
           Element (flat_heading ''c02'' ''b'' ''Item B'')])]"

definition flat_items :: "fnode list" where
  "flat_items =
     [FNode ''a'' ''Item A'' [] False (PyStr []) [],
      FNode ''b'' ''Item B'' [] False (PyStr []) []]"

definition flat_series_1 :: located where
  "flat_series_1 =
     \<lparr>parent = Tag ''div'' None []
          [Element (flat_heading ''c01'' ''s1'' ''Series 1''),
           Element (flat_heading ''c02'' ''a'' ''Item A''),
           Element (flat_heading ''c01'' ''s2'' ''Series 2''),
           Element (flat_heading ''c02'' ''b'' ''Item B'')],
      self = flat_heading ''c01'' ''s1'' ''Series 1'',
      next_siblings =
          [Element (flat_heading ''c02'' ''a'' ''Item A''),
           Element (flat_heading ''c01'' ''s2'' ''Series 2''),
           Element (flat_heading ''c02'' ''b'' ''Item B'')]\<rparr>"

text \<open>
  Ten levels, each heading in a \<^verbatim>\<open>div\<close> that also holds the \<^verbatim>\<open>div\<close> of the next
  level, marked \<^verbatim>\<open>c01\<close>, ..., \<^verbatim>\<open>c09\<close>, \<^verbatim>\<open>c10\<close>:
  \<^verbatim>\<open>
  <div><h3 class="ctag-heading c01" id="h1">h1</h3>
    <div><h3 class="ctag-heading c02" id="h2">h2</h3>
      ...
        <div><h3 class="ctag-heading c09" id="h9">h9</h3>
          <div><h3 class="ctag-heading c10" id="h10">h10</h3></div></div> ... </div></div>
  \<close>
  \<open>chain\<close> builds the node expected for one of the headings.
\<close>

definition level_div :: "string \<Rightarrow> string \<Rightarrow> node list \<Rightarrow> node" where
  "level_div c i inner =
     Element (Tag ''div'' None []
       (Element (Tag ''h3'' (Some [''ctag-heading'', c]) [(''id'', i)] [NavigableString i])
        # inner))"

definition ten_level_doc :: tag where
  "ten_level_doc =
     Tag ''[document]'' None []
       [level_div ''c01'' ''h1'' [level_div ''c02'' ''h2'' [level_div ''c03'' ''h3''
         [level_div ''c04'' ''h4'' [level_div ''c05'' ''h5'' [level_div ''c06'' ''h6''
           [level_div ''c07'' ''h7'' [level_div ''c08'' ''h8'' [level_div ''c09'' ''h9''
             [level_div ''c10'' ''h10'' []]]]]]]]]]]"

definition chain :: "string \<Rightarrow> fnode list \<Rightarrow> fnode list" where
  "chain i cs = [FNode i i [] False (PyStr []) cs]"







text \<open>
  A heading whose parent has the class \<^verbatim>\<open>image-and-title\<close> and holds a thumbnail:
  \<^verbatim>\<open>
  <div class="image-and-title"><h3 class="ctag-heading c01" id="s1">Series 1</h3>
       <img class="thumbnail" data-pid="nla.obj-999"/></div>
  \<close>
\<close>

definition digitised_heading :: tag where
  "digitised_heading =
     Tag ''h3'' (Some [''ctag-heading'', ''c01'']) [(''id'', ''s1'')] [NavigableString ''Series 1'']"

definition digitised_thumbnail :: tag where
  "digitised_thumbnail = Tag ''img'' (Some [''thumbnail'']) [(''data-pid'', ''nla.obj-999'')] []"

definition digitised_node :: located where
  "digitised_node =
     \<lparr>parent = Tag ''div'' (Some [''image-and-title'']) []
                 [Element digitised_heading, Element digitised_thumbnail],
      self = digitised_heading,
      next_siblings = [Element digitised_thumbnail]\<rparr>"

text \<open>
  A collection summary whose second label has no \<^verbatim>\<open>dd\<close> after it:
  \<^verbatim>\<open>
  <h3 id="collection-summary">Collection Summary</h3>
  <dl><dt>Title</dt><dd>Papers</dd><dt>Extent</dt></dl>
  \<close>
\<close>

definition extent_doc :: tag where
  "extent_doc =
     Tag ''[document]'' None []
       [Element (Tag ''h3'' None [(''id'', ''collection-summary'')] [NavigableString ''Collection Summary'']),
        Element (Tag ''dl'' None []
           [Element (Tag ''dt'' None [] [NavigableString ''Title'']),
            Element (Tag ''dd'' None [] [NavigableString ''Papers'']),
            Element (Tag ''dt'' None [] [NavigableString ''Extent''])])]"

text \<open>Two series, each in a \<^verbatim>\<open>div\<close> of its own, and no other heading.\<close>

definition plain_doc :: tag where
  "plain_doc =
     Tag ''[document]'' None []
       [Element (Tag ''div'' None []
          [Element (Tag ''h3'' (Some [''ctag-heading'', ''c01'']) [(''id'', ''s1'')]
                      [NavigableString ''Series 1''])]),
        Element (Tag ''div'' None []
          [Element (Tag ''h3'' (Some [''ctag-heading'', ''c01'']) [(''id'', ''s2'')]
                      [NavigableString ''Series 2''])])]"

text \<open>
  A heading followed by a text and by a paragraph that holds markup:
  \<^verbatim>\<open>
  <div><h3 class="ctag-heading c01" id="s1">Series 1</h3> Letters <p>See <b>box 1</b></p></div>
  \<close>
\<close>

definition noted_heading :: tag where
  "noted_heading =
     Tag ''h3'' (Some [''ctag-heading'', ''c01'']) [(''id'', ''s1'')] [NavigableString ''Series 1'']"

definition noted_paragraph :: tag where
  "noted_paragraph =
     Tag ''p'' None [] [NavigableString ''See '', Element (Tag ''b'' None [] [NavigableString ''box 1''])]"

definition noted_node :: located where
  "noted_node =
     \<lparr>parent = Tag ''div'' None []
                 [Element noted_heading, NavigableString '' Letters '', Element noted_paragraph],
      self = noted_heading,
      next_siblings = [NavigableString '' Letters '', Element noted_paragraph]\<rparr>"

text \<open>
  A collection summary without a title, in a document that has the title heading:
  \<^verbatim>\<open>
  <h1 id="contentrow">Papers of Alfred Deakin</h1>
  <h3 id="collection-summary">Collection Summary</h3>
  <dl><dt>Creator</dt><dd>Deakin, Alfred</dd></dl>
  \<close>
\<close>

definition creator_doc :: tag where
  "creator_doc =
     Tag ''[document]'' None []
       [Element (Tag ''h1'' None [(''id'', ''contentrow'')] [NavigableString ''Papers of Alfred Deakin'']),
        Element (Tag ''h3'' None [(''id'', ''collection-summary'')] [NavigableString ''Collection Summary'']),
        Element (Tag ''dl'' None []
           [Element (Tag ''dt'' None [] [NavigableString ''Creator'']),
            Element (Tag ''dd'' None [] [NavigableString ''Deakin, Alfred''])])]"

section \<open>Lemmas\<close>

subsection \<open>Leaves and paths\<close>

lemma find_leaves_preorder:
  "find_leaves_node n = filter is_leaf (preorder n)"
  "find_leaves ns = filter is_leaf (preorder_list ns)"
proof (induction n and ns rule: find_leaves_node_find_leaves.induct)
  case (1 i t d g f cs)
  then show ?case by (cases cs) (simp_all add: is_leaf_def)
qed simp_all

lemma with_ancestors_preorder:
  "map snd (with_ancestors anc n) = preorder n"
  "map snd (with_ancestors_list anc ns) = preorder_list ns"
  by (induction anc n and anc ns rule: with_ancestors_with_ancestors_list.induct) simp_all

lemma leaf_paths_append: "leaf_paths (xs @ ys) = leaf_paths xs @ leaf_paths ys"
  by (simp add: leaf_paths_def)

lemma pop_after_append: "list_pop a (list_append a x h) = Inr h"
  by (simp add: list_pop_def list_append_def)

text \<open>
  A call of \<^verbatim>\<open>get_paths\<close> returns the paths of the leaves below the node, with the
  contents of the list passed as the titles of the ancestors, and leaves the title of the
  node at the end of that list; the loop over the children pops it after each child.
\<close>

lemma get_paths_spec:
  "get_paths n a h = Inr (leaf_paths (with_ancestors (cells h a) n), list_append a (title n) h)"
  "get_paths_children cs ps a h = Inr (ps @ leaf_paths (with_ancestors_list (cells h a) cs), h)"
proof (induction n a h and cs ps a h rule: get_paths_get_paths_children.induct)
  case (1 i t d g f cs titles h)
  show ?case
  proof (cases "cs = []")
    case True
    then show ?thesis
      by (simp add: list_append_def leaf_paths_def leaf_path_def is_leaf_def)
  next
    case False
    with 1 show ?thesis
      by (simp add: leaf_paths_def is_leaf_def list_append_def)
  qed
next
  case (2 paths titles h)
  show ?case by (simp add: leaf_paths_def)
next
  case (3 c cs paths titles h)
  have a: "get_paths c titles h
           = Inr (leaf_paths (with_ancestors (cells h titles) c), list_append titles (title c) h)"
    by (rule 3)
  have "get_paths_children cs (paths @ leaf_paths (with_ancestors (cells h titles) c)) titles h
        = Inr ((paths @ leaf_paths (with_ancestors (cells h titles) c))
               @ leaf_paths (with_ancestors_list (cells h titles) cs), h)"
    by (rule 3(2) [OF a refl pop_after_append])
  with a show ?case
    by (simp add: pop_after_append leaf_paths_append)
qed

lemma paths_loop_spec:
  "\<exists>h'. paths_loop ns ps h = Inr (ps @ leaf_paths (with_ancestors_list [] ns), h')
        \<and> next_free h \<le> next_free h'
        \<and> (\<forall>a. a < next_free h \<longrightarrow> cells h' a = cells h a)"
proof (induction ns arbitrary: ps h)
  case Nil
  show ?case by (simp add: leaf_paths_def)
next
  case (Cons n ns)
  let ?h1 = "snd (new_list h)"
  let ?a = "next_free h"
  let ?h2 = "list_append ?a (title n) ?h1"
  have g: "get_paths n ?a ?h1 = Inr (leaf_paths (with_ancestors [] n), ?h2)"
    by (simp add: get_paths_spec new_list_def)
  obtain h' where h': "paths_loop ns ((ps @ leaf_paths (with_ancestors [] n))) ?h2
        = Inr ((ps @ leaf_paths (with_ancestors [] n)) @ leaf_paths (with_ancestors_list [] ns), h')"
      "next_free ?h2 \<le> next_free h'" "\<forall>a. a < next_free ?h2 \<longrightarrow> cells h' a = cells ?h2 a"
    using Cons.IH by blast
  have "paths_loop (n # ns) ps h = Inr (ps @ leaf_paths (with_ancestors_list [] (n # ns)), h')"
    using g h'(1) by (simp add: new_list_def leaf_paths_append)
  moreover have "next_free h \<le> next_free h'"
    using h'(2) by (simp add: new_list_def list_append_def)
  moreover have "\<forall>a. a < next_free h \<longrightarrow> cells h' a = cells h a"
    using h'(3) by (simp add: new_list_def list_append_def)
  ultimately show ?case by blast
qed

text \<open>
  The list passed keeps the title of the node when the call returns. Two calls for a
  leaf on one list, as two calls that leave \<^verbatim>\<open>titles\<close> to its default are, give
  different contexts: the second has the title that the first left.
\<close>

lemma shared_titles_list_keeps_title:
  assumes "get_paths (FNode i t d g f []) a h = Inr (ps1, h1)"
    and "get_paths (FNode i t d g f []) a h1 = Inr (ps2, h2)"
  shows "map path_context ps1 = [join '' / '' (cells h a)]
       \<and> map path_context ps2 = [join '' / '' (cells h a @ [t])]"
  using assms
  by (auto simp: get_paths_spec leaf_paths_def leaf_path_def is_leaf_def list_append_def)

lemma find_leaves_all_leaves: "\<forall>n \<in> set ns. children n = [] \<Longrightarrow> find_leaves ns = ns"
proof (induction ns)
  case Nil
  show ?case by simp
next
  case (Cons n ns)
  then show ?case by (cases n) simp
qed

subsection \<open>Loops that may raise\<close>

lemma sequence_sum_map_Inr_id: "sequence_sum (map Inr ys) = Inr ys"
  by (induction ys) simp_all

lemma sequence_sum_Inr_D: "sequence_sum xs = Inr ys \<Longrightarrow> xs = map Inr ys"
  by (induction xs arbitrary: ys rule: sequence_sum.induct) (auto split: sum.splits)

lemma sequence_sum_Inr: "sequence_sum xs = Inr ys \<longleftrightarrow> xs = map Inr ys"
  using sequence_sum_map_Inr_id sequence_sum_Inr_D by metis



lemma sequence_sum_map_Inr:
  "sequence_sum (map f xs) = Inr ys \<longleftrightarrow> list_all2 (\<lambda>x y. f x = Inr y) xs ys"
  by (auto simp: sequence_sum_Inr list_all2_conv_all_nth list_eq_iff_nth_eq)


subsection \<open>The tags below a tag\<close>

lemma descendants_self:
  "x \<in> set (descendants t) \<Longrightarrow> set (descendants (self x)) \<subseteq> set (descendants t)"
  "x \<in> set (descendants_list p ns) \<Longrightarrow> set (descendants (self x)) \<subseteq> set (descendants_list p ns)"
  by (induction t and p ns rule: descendants_descendants_list.induct) auto

lemma descendants_parent_cases:
  "x \<in> set (descendants t) \<Longrightarrow>
     parent x = t \<or> (\<exists>y \<in> set (descendants t). self y = parent x)"
  "x \<in> set (descendants_list p ns) \<Longrightarrow>
     parent x = p \<or> (\<exists>y \<in> set (descendants_list p ns). self y = parent x)"
  by (induction t and p ns rule: descendants_descendants_list.induct) auto

lemma descendants_of_parent:
  assumes "x \<in> set (descendants t)"
  shows "set (descendants (parent x)) \<subseteq> set (descendants t)"
proof -
  from descendants_parent_cases(1) [OF assms]
  show ?thesis
  proof
    assume "parent x = t" then show ?thesis by simp
  next
    assume "\<exists>y \<in> set (descendants t). self y = parent x"
    then obtain y where "y \<in> set (descendants t)" "self y = parent x" by blast
    then show ?thesis using descendants_self(1) [of y t] by simp
  qed
qed

lemma find_all_below_parent_empty:
  assumes "find_all t P = []" and "x \<in> set (descendants t)"
  shows "find_all (parent x) P = []"
proof -
  from assms(1) have "\<forall>y \<in> set (descendants t). \<not> P (self y)"
    by (simp add: find_all_def filter_empty_conv)
  with descendants_of_parent [OF assms(2)] show ?thesis
    by (auto simp: find_all_def filter_empty_conv)
qed

subsection \<open>Extraction\<close>

text \<open>
  The only exception that leaves \<^verbatim>\<open>extract_node_details\<close> is the \<^verbatim>\<open>KeyError\<close> of a
  heading without id: the one of \<^verbatim>\<open>get_first_page\<close> is caught.
\<close>

lemma get_first_page_error: "get_first_page node = Inl e \<Longrightarrow> \<exists>k. e = KeyError k"
  by (auto simp: get_first_page_def split: option.splits)

lemma first_page_total:
  "(if is_digitised node
         then (case get_first_page node of
                 Inl (KeyError k) \<Rightarrow> Inr (PyStr [])
               | Inl e \<Rightarrow> Inl e
               | Inr v \<Rightarrow> Inr v)
         else Inr (PyStr [])) = (Inr (first_page_of node) :: error + pyval)"
  by (auto simp: get_first_page_def first_page_of_def split: option.splits)

lemma extract_node_details_eq:
  "extract_node_details node level =
     (case map_of (attrs (self node)) ''id'' of
        None \<Rightarrow> Inl (KeyError ''id'')
      | Some i \<Rightarrow>
          (case get_children node level of
             Inl e \<Rightarrow> Inl e
           | Inr cs \<Rightarrow>
               Inr (FNode i (strip (tag_get_text (self node))) (get_text node)
                      (is_digitised node) (first_page_of node) cs)))"
  by (simp add: extract_node_details.simps [of node level] Let_def first_page_total
           split: option.splits)

lemma extract_children:
  "extract_node_details node level = Inr n \<Longrightarrow> get_children node level = Inr (children n)"
  by (auto simp: extract_node_details_eq split: option.splits sum.splits)





lemma strip_None: "strip ''None'' = ''None''"
  by (simp add: strip_def isspace_def)

subsection \<open>The summary\<close>

lemma summary_loop_keys:
  "summary_loop labels d = Inr sd \<Longrightarrow> fst ` set sd = fst ` set d \<union> summary_key ` set labels"
proof (induction labels arbitrary: d)
  case Nil
  then show ?case by simp
next
  case (Cons label labels)
  then show ?case by (auto simp: dom_update split: option.splits)
qed

lemma get_fa_summary_keys:
  "get_fa_summary soup = Inr sd \<Longrightarrow> fst ` set sd = summary_key ` set (summary_labels soup)"
  by (auto simp: get_fa_summary_def summary_labels_def dest!: summary_loop_keys
           split: option.splits)

text \<open>
  The fallback never raises, and a field whose tag is not in the document is the empty
  string.
\<close>

lemma get_string_by_id_missing:
  "find soup (\<lambda>t. tag_name t = tag \<and> id_matches i t) = None \<Longrightarrow> get_string_by_id soup tag i = []"
  by (simp add: get_string_by_id_def)

section \<open>The claims\<close>

text \<open>
  Claim C1, as the code has it. The children of a node extracted at a level are, in
  document order, the nodes extracted at the next level from all the tags below the
  parent of its heading whose class is the one searched for at the next level. Nothing
  keeps such a tag from lying below the parent of another heading of the same level as
  well.
\<close>

theorem children_are_next_level_headings_below_parent:
  assumes "extract_node_details node level = Inr n"
  shows "list_all2 (\<lambda>x c. extract_node_details x (level + 1) = Inr c)
           (filter (\<lambda>x. class_matches (heading_class (level + 1)) (self x))
                   (descendants (parent node)))
           (children n)"
proof -
  from assms have "get_children node level = Inr (children n)"
    by (rule extract_children)
  then show ?thesis
    by (simp add: get_children.simps [of node level] find_all_def sequence_sum_map_Inr)
qed

theorem children_are_next_level_headings_below_parent_witness:
  "extract_node_details flat_series_1 1
     = Inr (FNode ''s1'' ''Series 1'' [] False (PyStr []) flat_items)
   \<and> list_all2 (\<lambda>x c. extract_node_details x (1 + 1) = Inr c)
        (filter (\<lambda>x. class_matches (heading_class (1 + 1)) (self x))
                (descendants (parent flat_series_1)))
        flat_items"
proof -
  have e: "extract_node_details flat_series_1 1
           = Inr (FNode ''s1'' ''Series 1'' [] False (PyStr []) flat_items)"
    by code_simp
  show ?thesis
    using e children_are_next_level_headings_below_parent [OF e] by simp
qed

text \<open>
  Claim C1 as stated fails. In \<open>flat_doc\<close> the two series have the same parent. Item B
  follows Series 2, and is a child of Series 1 as well; Item A precedes Series 2, and is
  a child of Series 2 as well: each item has two parents.
\<close>

theorem sibling_headings_attached_to_both_series:
  "fa_items flat_doc
   = Inr [FNode ''s1'' ''Series 1'' [] False (PyStr []) flat_items,
          FNode ''s2'' ''Series 2'' [] False (PyStr []) flat_items]"
  by code_simp

text \<open>
  Claim C2. For every tree of nodes, the loop that applies \<^verbatim>\<open>get_paths\<close> to each
  top-level series returns, from any store, and without raising: exactly one path record
  per leaf; the records are in the document order of the leaves, which is the order of
  \<^verbatim>\<open>find_leaves\<close>; each record has the id and title of its leaf, and its context is
  the titles of the ancestors of the leaf, from the top-level series down to the parent
  of the leaf, joined by \<^verbatim>\<open>" / "\<close>, without the title of the leaf itself.
\<close>

theorem get_paths_one_record_per_leaf:
  "\<exists>h'. paths_loop items [] h
          = Inr (map leaf_path (filter (\<lambda>x. is_leaf (snd x)) (with_ancestors_list [] items)), h')
        \<and> map snd (filter (\<lambda>x. is_leaf (snd x)) (with_ancestors_list [] items))
          = find_leaves items"
proof -
  obtain h' where "paths_loop items [] h = Inr ([] @ leaf_paths (with_ancestors_list [] items), h')"
    using paths_loop_spec [of items "[]" h] by blast
  then have "paths_loop items [] h
          = Inr (map leaf_path (filter (\<lambda>x. is_leaf (snd x)) (with_ancestors_list [] items)), h')"
    by (simp add: leaf_paths_def)
  moreover have "map snd (filter (\<lambda>x. is_leaf (snd x)) (with_ancestors_list [] items))
                 = filter is_leaf (map snd (with_ancestors_list [] items))"
    by (simp add: filter_map comp_def)
  then have "map snd (filter (\<lambda>x. is_leaf (snd x)) (with_ancestors_list [] items))
             = find_leaves items"
    by (simp add: with_ancestors_preorder find_leaves_preorder)
  ultimately show ?thesis by blast
qed

text \<open>
  Claim C3. Running the loop over the top-level series a second time, in the store that
  the first run left, returns the same paths as the first run; so does a run from any
  other store \<open>h'\<close>, whatever the lists in it hold. No list that outlives a call, the
  default arguments included, takes part in the result. Nor does the traversal of one
  top-level series take part in the paths of the next: the paths of a series followed by
  other series are the paths that the series gives alone, followed by the paths that the
  other series give alone.
\<close>

theorem paths_loop_idempotent:
  "(\<exists>ps h1 h2 h3. paths_loop items [] h = Inr (ps, h1)
                 \<and> paths_loop items [] h1 = Inr (ps, h2)
                 \<and> paths_loop items [] h' = Inr (ps, h3))
   \<and> (\<exists>ps1 ps2 k1 k2 k3. paths_loop [series] [] ha = Inr (ps1, k1)
                 \<and> paths_loop rest [] hb = Inr (ps2, k2)
                 \<and> paths_loop (series # rest) [] hc = Inr (ps1 @ ps2, k3))"
proof
  obtain h1 where 1: "paths_loop items [] h = Inr ([] @ leaf_paths (with_ancestors_list [] items), h1)"
    using paths_loop_spec [of items "[]" h] by blast
  obtain h2 where 2: "paths_loop items [] h1 = Inr ([] @ leaf_paths (with_ancestors_list [] items), h2)"
    using paths_loop_spec [of items "[]" h1] by blast
  obtain h3 where 3: "paths_loop items [] h' = Inr ([] @ leaf_paths (with_ancestors_list [] items), h3)"
    using paths_loop_spec [of items "[]" h'] by blast
  from 1 2 3 show "\<exists>ps h1 h2 h3. paths_loop items [] h = Inr (ps, h1)
                 \<and> paths_loop items [] h1 = Inr (ps, h2)
                 \<and> paths_loop items [] h' = Inr (ps, h3)" by blast
next
  obtain k1 where 1: "paths_loop [series] [] ha
                      = Inr ([] @ leaf_paths (with_ancestors_list [] [series]), k1)"
    using paths_loop_spec [of "[series]" "[]" ha] by blast
  obtain k2 where 2: "paths_loop rest [] hb = Inr ([] @ leaf_paths (with_ancestors_list [] rest), k2)"
    using paths_loop_spec [of rest "[]" hb] by blast
  obtain k3 where 3: "paths_loop (series # rest) [] hc
                      = Inr ([] @ leaf_paths (with_ancestors_list [] (series # rest)), k3)"
    using paths_loop_spec [of "series # rest" "[]" hc] by blast
  have "leaf_paths (with_ancestors_list [] (series # rest))
        = leaf_paths (with_ancestors_list [] [series]) @ leaf_paths (with_ancestors_list [] rest)"
    by (simp add: leaf_paths_append)
  with 1 2 3 have "paths_loop [series] [] ha = Inr (leaf_paths (with_ancestors_list [] [series]), k1)
     \<and> paths_loop rest [] hb = Inr (leaf_paths (with_ancestors_list [] rest), k2)
     \<and> paths_loop (series # rest) [] hc
        = Inr (leaf_paths (with_ancestors_list [] [series]) @ leaf_paths (with_ancestors_list [] rest), k3)"
    by simp
  then show "\<exists>ps1 ps2 k1 k2 k3. paths_loop [series] [] ha = Inr (ps1, k1)
                 \<and> paths_loop rest [] hb = Inr (ps2, k2)
                 \<and> paths_loop (series # rest) [] hc = Inr (ps1 @ ps2, k3)" by blast
qed

text \<open>
  Claim C4. The class searched for below a heading of level 9 is
  \<^verbatim>\<open>ctag-heading c010\<close>, so in \<open>ten_level_doc\<close> the heading of level 10, marked
  \<^verbatim>\<open>c10\<close>, is not found: the node of level 9 has no children.
\<close>

theorem tenth_level_not_found:
  "heading_class (9 + 1) = ''ctag-heading c010''
   \<and> fa_items ten_level_doc
     = Inr (chain ''h1'' (chain ''h2'' (chain ''h3'' (chain ''h4'' (chain ''h5''
           (chain ''h6'' (chain ''h7'' (chain ''h8'' (chain ''h9'' [])))))))))"
  by code_simp




text \<open>
  Claim C6. A heading with an id whose children are extracted is extracted, whatever
  its thumbnail. \<^verbatim>\<open>digitised\<close> holds exactly when the parent of the heading has the
  class \<^verbatim>\<open>image-and-title\<close>. When it holds, \<^verbatim>\<open>first_page\<close> is the \<^verbatim>\<open>data-pid\<close> of
  the first thumbnail image below the parent, \<^verbatim>\<open>None\<close> when there is no thumbnail
  image, and the empty string when the thumbnail has no \<^verbatim>\<open>data-pid\<close>; when it does not
  hold, \<^verbatim>\<open>first_page\<close> is the empty string.
\<close>

theorem digitised_and_first_page:
  assumes "map_of (attrs (self node)) ''id'' = Some i"
    and "get_children node level = Inr cs"
  shows "\<exists>n. extract_node_details node level = Inr n
     \<and> (digitised n \<longleftrightarrow> (\<exists>cls. classes (parent node) = Some cls \<and> ''image-and-title'' \<in> set cls))
     \<and> (digitised n \<longrightarrow>
          (case find (parent node) (\<lambda>t. tag_name t = ''img'' \<and> class_matches ''thumbnail'' t) of
             None \<Rightarrow> first_page n = PyNone
           | Some img \<Rightarrow>
               (case map_of (attrs (self img)) ''data-pid'' of
                  None \<Rightarrow> first_page n = PyStr []
                | Some pid \<Rightarrow> first_page n = PyStr pid)))
     \<and> (\<not> digitised n \<longrightarrow> first_page n = PyStr [])"
  using assms
  by (auto simp: extract_node_details_eq first_page_of_def is_digitised_def split: option.splits)

theorem digitised_and_first_page_witness:
  "\<exists>n. extract_node_details digitised_node 1 = Inr n \<and> digitised n
       \<and> first_page n = PyStr ''nla.obj-999''"
proof -
  have c: "get_children digitised_node 1 = Inr []"
    by code_simp
  have i: "map_of (attrs (self digitised_node)) ''id'' = Some ''s1''"
    by (simp add: digitised_node_def digitised_heading_def)
  show ?thesis
    using digitised_and_first_page [OF i c]
    by (auto simp: digitised_node_def digitised_heading_def digitised_thumbnail_def
          find_def find_all_def class_matches_def)
qed

text \<open>
  Claim C7. In \<open>extent_doc\<close> the label \<^verbatim>\<open>Extent\<close> has no \<^verbatim>\<open>dd\<close> after it:
  \<^verbatim>\<open>find_sibling_tag\<close> returns \<^verbatim>\<open>None\<close>, and the call of \<^verbatim>\<open>get_text\<close> on it
  raises \<^verbatim>\<open>AttributeError\<close>, which leaves \<^verbatim>\<open>get_fa_summary\<close> and
  \<^verbatim>\<open>convert_finding_aid\<close>. The label is not skipped.
\<close>

theorem label_without_value_raises:
  "get_fa_summary extent_doc = Inl (AttributeError ''get_text'')
   \<and> convert_finding_aid extent_doc = Inl (AttributeError ''get_text'')"
  by code_simp

text \<open>
  Claim C8. \<^verbatim>\<open>find_leaves\<close> yields the nodes of the forest that have no children, in
  pre-order from left to right. For a document in which every level-1 heading has an id
  and no tag has the class of level 2, the extraction returns one node per level-1
  heading, in document order, each without children, and \<^verbatim>\<open>find_leaves\<close> returns
  these nodes in the same order.
\<close>

theorem find_leaves_yields_the_nodes_without_children:
  "find_leaves nodes = filter is_leaf (preorder_list nodes)
   \<and> ((\<forall>x \<in> set (find_all soup (class_matches ''ctag-heading c01'')).
          map_of (attrs (self x)) ''id'' \<noteq> None)
       \<and> find_all soup (class_matches (heading_class 2)) = []
       \<longrightarrow> (\<exists>items. fa_items soup = Inr items
              \<and> length items = length (find_all soup (class_matches ''ctag-heading c01''))
              \<and> map node_id items
                = map (\<lambda>x. the (map_of (attrs (self x)) ''id''))
                      (find_all soup (class_matches ''ctag-heading c01''))
              \<and> (\<forall>n \<in> set items. children n = [])
              \<and> find_leaves items = items))"
proof (intro conjI impI)
  show "find_leaves nodes = filter is_leaf (preorder_list nodes)"
    by (rule find_leaves_preorder)
next
  let ?hs = "find_all soup (class_matches ''ctag-heading c01'')"
  assume a: "(\<forall>x \<in> set ?hs. map_of (attrs (self x)) ''id'' \<noteq> None)
             \<and> find_all soup (class_matches (heading_class 2)) = []"
  have one: "extract_node_details x 1 = Inr (leaf_of_heading x)" if x: "x \<in> set ?hs" for x
  proof -
    from x have "x \<in> set (descendants soup)" by (simp add: find_all_def)
    with a have "find_all (parent x) (class_matches (heading_class 2)) = []"
      using find_all_below_parent_empty by blast
    then have "get_children x 1 = Inr []"
      unfolding get_children.simps [of x 1] by (simp add: numeral_2_eq_2)
    moreover from a x obtain i where "map_of (attrs (self x)) ''id'' = Some i" by auto
    ultimately show ?thesis
      by (simp add: extract_node_details_eq leaf_of_heading_def)
  qed
  then have "map (\<lambda>node. extract_node_details node 1) ?hs = map Inr (map leaf_of_heading ?hs)"
    by simp
  then have f: "fa_items soup = Inr (map leaf_of_heading ?hs)"
    unfolding fa_items_def by (simp only: sequence_sum_map_Inr_id)
  have l: "\<forall>n \<in> set (map leaf_of_heading ?hs). children n = []"
    by (simp add: leaf_of_heading_def)
  have "find_leaves (map leaf_of_heading ?hs) = map leaf_of_heading ?hs"
    using l by (rule find_leaves_all_leaves)
  with f l show "\<exists>items. fa_items soup = Inr items
              \<and> length items = length ?hs
              \<and> map node_id items = map (\<lambda>x. the (map_of (attrs (self x)) ''id'')) ?hs
              \<and> (\<forall>n \<in> set items. children n = [])
              \<and> find_leaves items = items"
    by (intro exI [of _ "map leaf_of_heading ?hs"]) (simp add: leaf_of_heading_def comp_def)
qed

theorem find_leaves_yields_the_nodes_without_children_witness:
  "map (\<lambda>x. map_of (attrs (self x)) ''id'')
       (find_all plain_doc (class_matches ''ctag-heading c01'')) = [Some ''s1'', Some ''s2'']
   \<and> find_all plain_doc (class_matches (heading_class 2)) = []
   \<and> (\<exists>items. fa_items plain_doc = Inr items \<and> length items = 2
         \<and> map node_id items = [''s1'', ''s2'']
         \<and> map children items = [[], []] \<and> find_leaves items = items)"
proof -
  have i: "map (\<lambda>x. map_of (attrs (self x)) ''id'')
             (find_all plain_doc (class_matches ''ctag-heading c01'')) = [Some ''s1'', Some ''s2'']"
    by code_simp
  have h: "(\<forall>x \<in> set (find_all plain_doc (class_matches ''ctag-heading c01'')).
              map_of (attrs (self x)) ''id'' \<noteq> None)
           \<and> find_all plain_doc (class_matches (heading_class 2)) = []"
    by code_simp
  have l: "map (\<lambda>x. the (map_of (attrs (self x)) ''id''))
             (find_all plain_doc (class_matches ''ctag-heading c01'')) = [''s1'', ''s2'']"
    by code_simp
  have n: "length (find_all plain_doc (class_matches ''ctag-heading c01'')) = 2"
    by code_simp
  from find_leaves_yields_the_nodes_without_children [of "[]" plain_doc] h
  obtain items where it: "fa_items plain_doc = Inr items" "length items = 2"
     "map node_id items = [''s1'', ''s2'']" "\<forall>n \<in> set items. children n = []"
     "find_leaves items = items"
    by (auto simp: l n)
  from it(4) have "map children items = map (\<lambda>n. []) items"
    by (intro map_cong) simp_all
  with it(2) have c: "map children items = [[], []]"
    by (simp add: map_replicate_const numeral_2_eq_2)
  from h have d: "find_all plain_doc (class_matches (heading_class 2)) = []" by simp
  show ?thesis
  proof (intro conjI exI [of _ items])
    show "map children items = [[], []]" by (rule c)
  qed (fact i d it)+
qed

text \<open>
  Claim C9. When a \<^verbatim>\<open>p\<close> tag among the contents of the parent of a heading has no
  \<^verbatim>\<open>.string\<close>, the description of the node has the text \<^verbatim>\<open>None\<close> in the place of
  that paragraph, between what the contents before it and after it give.
\<close>

theorem description_of_paragraph_without_string:
  assumes "extract_node_details node level = Inr n"
    and "contents (parent node) = before @ Element p # after"
    and "tag_name p = ''p''"
    and "tag_string p = None"
  shows "description n
         = join [CHR 0x0A] (concat (map text_of_child before) @ [''None'']
                            @ concat (map text_of_child after))"
  using assms
  by (auto simp: extract_node_details_eq get_text_def py_str_def strip_None
           split: option.splits sum.splits)

theorem description_of_paragraph_without_string_witness:
  "extract_node_details noted_node 1
     = Inr (FNode ''s1'' ''Series 1'' (''Letters'' @ [CHR 0x0A] @ ''None'') False (PyStr []) [])
   \<and> tag_string noted_paragraph = None
   \<and> description (FNode ''s1'' ''Series 1'' (''Letters'' @ [CHR 0x0A] @ ''None'') False (PyStr []) [])
     = join [CHR 0x0A] (concat (map text_of_child [Element noted_heading, NavigableString '' Letters ''])
                        @ [''None''] @ concat (map text_of_child []))"
proof -
  have e: "extract_node_details noted_node 1
     = Inr (FNode ''s1'' ''Series 1'' (''Letters'' @ [CHR 0x0A] @ ''None'') False (PyStr []) [])"
    by code_simp
  have c: "contents (parent noted_node)
           = [Element noted_heading, NavigableString '' Letters ''] @ Element noted_paragraph # []"
    by (simp add: noted_node_def)
  have p: "tag_name noted_paragraph = ''p''" by (simp add: noted_paragraph_def)
  have s: "tag_string noted_paragraph = None" by (simp add: noted_paragraph_def)
  from e s description_of_paragraph_without_string [OF e c p s] show ?thesis by simp
qed

text \<open>
  Claim C10. When the summary and the items are extracted, the result holds the pairs of
  the collection summary if one of its keys is \<^verbatim>\<open>title\<close>, and otherwise only the two
  fields of \<^verbatim>\<open>get_fa_details\<close>; in both cases with the items under \<^verbatim>\<open>items\<close>. A key
  \<^verbatim>\<open>title\<close> is there exactly when a label of the summary gives that key.
\<close>

theorem fallback_summary_iff_no_title:
  assumes "get_fa_summary soup = Inr summary_data"
    and "fa_items soup = Inr items"
  shows "convert_finding_aid soup
         = Inr (AList.update ''items'' (JItems items)
                  (map (\<lambda>(k, v). (k, JStr v))
                     (if ''title'' \<in> fst ` set summary_data then summary_data
                      else get_fa_details soup)))
       \<and> (''title'' \<in> fst ` set summary_data
            \<longleftrightarrow> (\<exists>label \<in> set (summary_labels soup). summary_key label = ''title''))"
proof
  from assms show "convert_finding_aid soup
         = Inr (AList.update ''items'' (JItems items)
                  (map (\<lambda>(k, v). (k, JStr v))
                     (if ''title'' \<in> fst ` set summary_data then summary_data
                      else get_fa_details soup)))"
    by (simp add: convert_finding_aid_def)
next
  from get_fa_summary_keys [OF assms(1)]
  show "''title'' \<in> fst ` set summary_data
            \<longleftrightarrow> (\<exists>label \<in> set (summary_labels soup). summary_key label = ''title'')"
    by (simp only: image_iff) metis
qed

theorem fallback_summary_iff_no_title_witness:
  "get_fa_summary creator_doc = Inr [(''creator'', ''Deakin, Alfred'')]
   \<and> fa_items creator_doc = Inr []
   \<and> convert_finding_aid creator_doc
     = Inr [(''title'', JStr ''Papers of Alfred Deakin''), (''collection_number'', JStr []),
            (''items'', JItems [])]"
proof -
  have s: "get_fa_summary creator_doc = Inr [(''creator'', ''Deakin, Alfred'')]"
    by code_simp
  have i: "fa_items creator_doc = Inr []"
    by code_simp
  have d: "get_fa_details creator_doc
           = [(''title'', ''Papers of Alfred Deakin''), (''collection_number'', [])]"
    by code_simp
  from s i fallback_summary_iff_no_title [OF s i] show ?thesis
    by (simp add: d)
qed

end
